theory Spec2Isabelle
  imports Complex_Main
begin

section \<open>Data model of the contracts application\<close>

text \<open>
  The embedding follows \<^verbatim>\<open>contracts/models.py\<close> and \<^verbatim>\<open>lessons/models.py\<close>.

  \<^item> A Django model class is a record with the columns the pricing code reads or writes.
    Column names are kept; where two classes share a column name the record field carries
    a short class prefix (\<open>pl_\<close>, \<open>d_\<close>, \<open>ci_\<close>, \<open>cid_\<close>, \<open>cr_\<close>, \<open>inv_\<close>, \<open>ii_\<close>).
  \<^item> A foreign key is the primary key of the row it points to; a nullable column is an
    \<open>option\<close>.
  \<^item> \<^verbatim>\<open>Decimal\<close> values are exact rationals: the methods below only add, subtract,
    negate, multiply and divide by 100, which Python's decimal context (28 significant
    digits) performs exactly on the column ranges declared in the models.
  \<^item> A \<^verbatim>\<open>date\<close> is its proleptic Gregorian ordinal (\<^verbatim>\<open>date.toordinal()\<close>), so that
    comparison of dates is comparison of integers; 2024-01-01 is 738886.
  \<^item> The database is a record of tables, each a list of rows in storage order, together
    with the value \<^verbatim>\<open>date.today()\<close> returns and the backend that stores the tables.
  \<^item> A method that assigns to \<^verbatim>\<open>self\<close> and then calls \<^verbatim>\<open>save()\<close> returns the object with
    the assignments made, which stay when \<^verbatim>\<open>save()\<close> raises, and either the exception or
    the database after the write. The object keeps the exact values assigned to it; the
    row holds what the column type stores (section on saving below).
  \<^item> An object carries its primary key; one whose key no row of the table has is a new
    object. The columns the records leave out (texts, dates of issue, file names) are
    taken to be valid for their column types, and foreign keys to resolve.
\<close>

type_synonym decimal = rat
type_synonym date = int
type_synonym pk = nat

datatype error = DoesNotExist | MultipleObjectsReturned | DatabaseError | IntegrityError
  | DataError | InvalidOperation | ValueError

datatype engine = PostgreSQL | SQLite

record PriceList =
  pl_subject :: pk
  price_per_hour :: decimal
  pl_valid_from :: date
  pl_valid_to :: "date option"
  pl_is_active :: bool

record DiscountType =
  is_percentage :: bool
  dt_is_active :: bool

record Discount =
  d_pk :: pk
  discount_type :: DiscountType
  d_value :: decimal
  d_valid_from :: date
  d_valid_to :: "date option"
  d_is_active :: bool
  min_subjects :: "int option"
  max_subjects :: "int option"
  applies_to_family :: bool

record ContractItem =
  ci_pk :: pk
  ci_contract :: pk
  ci_child :: pk
  ci_subject :: pk
  base_price :: decimal
  final_price :: decimal
  ci_is_active :: bool

record ContractItemDiscount =
  cid_contract_item :: pk
  cid_discount :: pk
  cid_discount_amount :: decimal

record ContractChangeRequest =
  cr_contract :: "pk option"
  cr_child :: "pk option"
  cr_subject :: "pk option"
  request_type :: string
  estimated_monthly_change :: "decimal option"

record Invoice =
  inv_pk :: pk
  subtotal :: decimal
  total_discount :: decimal
  inv_total_amount :: decimal
  status :: string
  due_date :: date

record InvoiceItem =
  ii_pk :: pk
  ii_invoice :: pk
  quantity :: decimal
  unit_price :: decimal
  ii_discount_amount :: decimal
  ii_total_amount :: decimal

record db =
  price_lists :: "PriceList list"
  discounts :: "Discount list"
  contract_items :: "ContractItem list"
  contract_item_discounts :: "ContractItemDiscount list"
  invoices :: "Invoice list"
  invoice_items :: "InvoiceItem list"
  today :: date
  engine :: engine

section \<open>Query set operations\<close>

text \<open>
  \<^verbatim>\<open>QuerySet.first()\<close> returns the first row or \<^verbatim>\<open>None\<close>; \<^verbatim>\<open>QuerySet.get()\<close> raises
  \<^verbatim>\<open>DoesNotExist\<close> on no row and \<^verbatim>\<open>MultipleObjectsReturned\<close> on more than one.
  \<^verbatim>\<open>order_by("-col")\<close> sorts descending; rows with equal keys stay in storage order
  (the database leaves their order open, and no theorem below depends on it).
\<close>

definition first :: "'a list \<Rightarrow> 'a option" where
  "first rows = (case rows of [] \<Rightarrow> None | r # _ \<Rightarrow> Some r)"

definition get :: "'a list \<Rightarrow> error + 'a" where
  "get rows = (case rows of [] \<Rightarrow> Inl DoesNotExist
                 | [r] \<Rightarrow> Inr r
                 | _ # _ # _ \<Rightarrow> Inl MultipleObjectsReturned)"

definition order_by_desc :: "('a \<Rightarrow> int) \<Rightarrow> 'a list \<Rightarrow> 'a list" where
  "order_by_desc col rows = sort_key (\<lambda>r. - col r) rows"

text \<open>Python truthiness of a nullable integer column: \<^verbatim>\<open>None\<close> and 0 are false.\<close>

definition truthy :: "int option \<Rightarrow> bool" where
  "truthy v = (case v of None \<Rightarrow> False | Some n \<Rightarrow> n \<noteq> 0)"

section \<open>Saving: what Model.save() writes\<close>

text \<open>
  \<^verbatim>\<open>Model.save()\<close> is Django's, not this repository's; the model below is what the two
  methods that call it rely on.

  \<^bold>\<open>Decimal columns.\<close> A \<^verbatim>\<open>DecimalField(max_digits=m, decimal_places=2)\<close> stores a value
  rounded to two decimal places and rejects one whose rounded value needs more than \<open>m\<close>
  digits. With the engine of \<^verbatim>\<open>settings.py\<close>, PostgreSQL, the \<^verbatim>\<open>numeric(m,2)\<close> column
  rounds half away from zero and the failure is a \<^verbatim>\<open>DataError\<close>; with the SQLite backend
  Django quantises the value itself under the default decimal context, half to even, and
  the failure is \<^verbatim>\<open>decimal.InvalidOperation\<close>.
\<close>

definition round_half_away :: "rat \<Rightarrow> int" where
  "round_half_away x = (if 0 \<le> x then \<lfloor>x + 1 / 2\<rfloor> else - \<lfloor>- x + 1 / 2\<rfloor>)"

definition round_half_even :: "rat \<Rightarrow> int" where
  "round_half_even x =
     (let f = \<lfloor>x\<rfloor>; r = x - of_int f
      in if r < 1 / 2 then f else if 1 / 2 < r then f + 1 else if even f then f else f + 1)"

definition quantize :: "engine \<Rightarrow> decimal \<Rightarrow> decimal" where
  "quantize e x =
     of_int (case e of PostgreSQL \<Rightarrow> round_half_away (x * 100)
                     | SQLite \<Rightarrow> round_half_even (x * 100)) / 100"

definition overflow :: "engine \<Rightarrow> error" where
  "overflow e = (case e of PostgreSQL \<Rightarrow> DataError | SQLite \<Rightarrow> InvalidOperation)"

definition adapt_decimalfield_value :: "engine \<Rightarrow> nat \<Rightarrow> decimal \<Rightarrow> error + decimal" where
  "adapt_decimalfield_value e max_digits x =
     (if \<bar>quantize e x\<bar> * 100 < 10 ^ max_digits then Inr (quantize e x)
      else Inl (overflow e))"

text \<open>A column that the write leaves out is not converted.\<close>

definition prep_column :: "engine \<Rightarrow> bool \<Rightarrow> nat \<Rightarrow> decimal \<Rightarrow> error + decimal" where
  "prep_column e written max_digits x =
     (if written then adapt_decimalfield_value e max_digits x else Inr x)"

definition and_then :: "error + 'a \<Rightarrow> ('a \<Rightarrow> error + 'b) \<Rightarrow> error + 'b" where
  "and_then m f = (case m of Inl err \<Rightarrow> Inl err | Inr x \<Rightarrow> f x)"

text \<open>
  \<^bold>\<open>The write.\<close> A plain \<^verbatim>\<open>save()\<close> runs an UPDATE of the row with the object's primary
  key and, when no row was updated, an INSERT. A raise leaves the database as it was.
\<close>

fun save_row :: "('a \<Rightarrow> pk) \<Rightarrow> 'a \<Rightarrow> 'a list \<Rightarrow> 'a list" where
  "save_row key obj [] = [obj]"
| "save_row key obj (r # rows) =
     (if key r = key obj then obj # rows else r # save_row key obj rows)"

definition db_after :: "db \<Rightarrow> error + db \<Rightarrow> db" where
  "db_after w outcome = (case outcome of Inl err \<Rightarrow> w | Inr w' \<Rightarrow> w')"

text \<open>
  \<^bold>\<open>ContractItem.\<close> \<^verbatim>\<open>base_price\<close> and \<^verbatim>\<open>final_price\<close> are
  \<^verbatim>\<open>DecimalField(max_digits=8, decimal_places=2)\<close>, and
  \<^verbatim>\<open>unique_together = ['contract', 'child', 'subject']\<close>: a write that would leave two rows
  with the same triple raises \<^verbatim>\<open>IntegrityError\<close>.
\<close>

definition ContractItem_row :: "engine \<Rightarrow> ContractItem \<Rightarrow> error + ContractItem" where
  "ContractItem_row e self =
     and_then (adapt_decimalfield_value e 8 (base_price self)) (\<lambda>b.
     and_then (adapt_decimalfield_value e 8 (final_price self)) (\<lambda>f.
     Inr (self\<lparr>base_price := b, final_price := f\<rparr>)))"

definition violates_unique_together :: "ContractItem \<Rightarrow> ContractItem list \<Rightarrow> bool" where
  "violates_unique_together self rows =
     list_ex (\<lambda>r. ci_pk r \<noteq> ci_pk self \<and> ci_contract r = ci_contract self \<and>
                  ci_child r = ci_child self \<and> ci_subject r = ci_subject self) rows"

definition ContractItem_save :: "ContractItem \<Rightarrow> db \<Rightarrow> error + db" where
  "ContractItem_save self w =
     and_then (ContractItem_row (engine w) self) (\<lambda>row.
       if violates_unique_together self (contract_items w) then Inl IntegrityError
       else Inr (w\<lparr>contract_items := save_row ci_pk row (contract_items w)\<rparr>))"

text \<open>
  \<^bold>\<open>InvoiceItem.\<close> \<^verbatim>\<open>InvoiceItem.save(*args, **kwargs)\<close> hands its arguments on to
  \<^verbatim>\<open>Model.save(force_insert=False, force_update=False, using=None, update_fields=None)\<close>:
  \<^item> \<^verbatim>\<open>force_insert\<close> together with \<^verbatim>\<open>force_update\<close> or a non-empty \<^verbatim>\<open>update_fields\<close>
    raises \<^verbatim>\<open>ValueError\<close>;
  \<^item> an empty \<^verbatim>\<open>update_fields\<close> list returns without writing;
  \<^item> a name in \<^verbatim>\<open>update_fields\<close> that is no column of the model raises \<^verbatim>\<open>ValueError\<close>;
  \<^item> with \<^verbatim>\<open>update_fields\<close> only the named columns are written, into the existing row,
    and \<^verbatim>\<open>DatabaseError\<close> is raised when there is none, as with \<^verbatim>\<open>force_update\<close>;
  \<^item> \<^verbatim>\<open>force_insert\<close> runs the INSERT alone, which raises \<^verbatim>\<open>IntegrityError\<close> on a
    primary key that is taken.
  \<^verbatim>\<open>using\<close> names the database connection; the settings declare one.
  \<^verbatim>\<open>quantity\<close> has \<^verbatim>\<open>max_digits=6\<close>, the three amounts \<^verbatim>\<open>max_digits=8\<close>, all with two
  decimal places.
\<close>

record save_kwargs =
  force_insert :: bool
  force_update :: bool
  update_fields :: "string list option"

definition plain_save :: save_kwargs where
  "plain_save = \<lparr>force_insert = False, force_update = False, update_fields = None\<rparr>"

definition InvoiceItem_field_names :: "string list" where
  "InvoiceItem_field_names =
     [''invoice'', ''invoice_id'', ''item_type'', ''description'', ''child'', ''child_id'',
      ''subject'', ''subject_id'', ''quantity'', ''unit_price'', ''discount_amount'',
      ''total_amount'', ''payer'']"

definition writes :: "save_kwargs \<Rightarrow> string \<Rightarrow> bool" where
  "writes kw name = (case update_fields kw of None \<Rightarrow> True | Some names \<Rightarrow> name \<in> set names)"

definition InvoiceItem_row :: "engine \<Rightarrow> save_kwargs \<Rightarrow> InvoiceItem \<Rightarrow> error + InvoiceItem" where
  "InvoiceItem_row e kw self =
     and_then (prep_column e (writes kw ''quantity'') 6 (quantity self)) (\<lambda>q.
     and_then (prep_column e (writes kw ''unit_price'') 8 (unit_price self)) (\<lambda>u.
     and_then (prep_column e (writes kw ''discount_amount'') 8 (ii_discount_amount self)) (\<lambda>d.
     and_then (prep_column e (writes kw ''total_amount'') 8 (ii_total_amount self)) (\<lambda>t.
     Inr (self\<lparr>quantity := q, unit_price := u, ii_discount_amount := d,
               ii_total_amount := t\<rparr>)))))"

definition InvoiceItem_update :: "save_kwargs \<Rightarrow> InvoiceItem \<Rightarrow> InvoiceItem \<Rightarrow> InvoiceItem" where
  "InvoiceItem_update kw new old =
     old\<lparr>ii_invoice := (if writes kw ''invoice'' \<or> writes kw ''invoice_id''
                         then ii_invoice new else ii_invoice old),
         quantity := (if writes kw ''quantity'' then quantity new else quantity old),
         unit_price := (if writes kw ''unit_price'' then unit_price new else unit_price old),
         ii_discount_amount := (if writes kw ''discount_amount''
                                 then ii_discount_amount new else ii_discount_amount old),
         ii_total_amount := (if writes kw ''total_amount''
                              then ii_total_amount new else ii_total_amount old)\<rparr>"

definition InvoiceItem_write :: "save_kwargs \<Rightarrow> InvoiceItem \<Rightarrow> db \<Rightarrow> error + db" where
  "InvoiceItem_write kw row w =
     (let present = ii_pk row \<in> set (map ii_pk (invoice_items w))
      in if force_insert kw then
           (if present then Inl IntegrityError
            else Inr (w\<lparr>invoice_items := invoice_items w @ [row]\<rparr>))
         else if present then
           Inr (w\<lparr>invoice_items :=
                  map (\<lambda>r. if ii_pk r = ii_pk row then InvoiceItem_update kw row r else r)
                    (invoice_items w)\<rparr>)
         else if force_update kw \<or> update_fields kw \<noteq> None then Inl DatabaseError
         else Inr (w\<lparr>invoice_items := invoice_items w @ [row]\<rparr>))"

definition Model_save :: "save_kwargs \<Rightarrow> InvoiceItem \<Rightarrow> db \<Rightarrow> error + db" where
  "Model_save kw self w =
     (let names = (case update_fields kw of None \<Rightarrow> [] | Some names \<Rightarrow> names)
      in if force_insert kw \<and> (force_update kw \<or> names \<noteq> []) then Inl ValueError
         else if update_fields kw = Some [] then Inr w
         else if list_ex (\<lambda>name. name \<notin> set InvoiceItem_field_names) names then Inl ValueError
         else and_then (InvoiceItem_row (engine w) kw self) (\<lambda>row. InvoiceItem_write kw row w))"

text \<open>
  \<^bold>\<open>Invoice.\<close> \<^verbatim>\<open>save(update_fields=['subtotal', 'total_discount', 'total_amount'])\<close>
  writes the three columns, \<^verbatim>\<open>DecimalField(max_digits=10, decimal_places=2)\<close> each, into
  the stored row and raises \<^verbatim>\<open>DatabaseError\<close> when the table has no row with the
  invoice's primary key.
\<close>

definition save_update_fields :: "Invoice \<Rightarrow> db \<Rightarrow> error + db" where
  "save_update_fields self w =
     and_then (adapt_decimalfield_value (engine w) 10 (subtotal self)) (\<lambda>s.
     and_then (adapt_decimalfield_value (engine w) 10 (total_discount self)) (\<lambda>d.
     and_then (adapt_decimalfield_value (engine w) 10 (inv_total_amount self)) (\<lambda>t.
       if inv_pk self \<in> set (map inv_pk (invoices w))
       then Inr (w\<lparr>invoices :=
                   map (\<lambda>r. if inv_pk r = inv_pk self
                             then r\<lparr>subtotal := s, total_discount := d, inv_total_amount := t\<rparr>
                             else r) (invoices w)\<rparr>)
       else Inl DatabaseError)))"

section \<open>Subject.current_price\<close>

text \<open>
  \<^verbatim>\<open>
  current_price = (PriceList.objects.filter(subject=self, valid_from__lte=date.today(),
                                            is_active=True)
                   .order_by("-valid_from").first())
  return current_price.price_per_hour if current_price else None
  \<close>
\<close>

definition price_candidates :: "pk \<Rightarrow> db \<Rightarrow> PriceList list" where
  "price_candidates self w =
     filter (\<lambda>p. pl_subject p = self \<and> pl_valid_from p \<le> today w \<and> pl_is_active p)
       (price_lists w)"

definition current_price :: "pk \<Rightarrow> db \<Rightarrow> decimal option" where
  "current_price self w =
     (case first (order_by_desc pl_valid_from (price_candidates self w)) of
        None \<Rightarrow> None
      | Some p \<Rightarrow> Some (price_per_hour p))"

section \<open>ContractItem.calculate_discounts and update_final_price\<close>

text \<open>
  \<^verbatim>\<open>
  def calculate_discounts(self):
      total_discount = Decimal('0.00')
      subjects_count = self.contract.items.filter(is_active=True).count()
      applicable_discounts = Discount.objects.filter(
          is_active=True, valid_from__lte=date.today()
      ).filter(Q(valid_to__isnull=True) | Q(valid_to__gte=date.today()))
      for discount in applicable_discounts:
          if discount.min_subjects and subjects_count < discount.min_subjects:
              continue
          if discount.max_subjects and subjects_count > discount.max_subjects:
              continue
          if discount.discount_type.is_percentage:
              discount_amount = self.base_price * discount.value / 100
          else:
              discount_amount = discount.value
          total_discount += discount_amount
      return total_discount
  \<close>
\<close>

definition subjects_count :: "pk \<Rightarrow> db \<Rightarrow> int" where
  "subjects_count contract w =
     int (length (filter (\<lambda>i. ci_contract i = contract \<and> ci_is_active i) (contract_items w)))"

definition applicable_discounts :: "db \<Rightarrow> Discount list" where
  "applicable_discounts w =
     filter (\<lambda>d. case d_valid_to d of None \<Rightarrow> True | Some t \<Rightarrow> today w \<le> t)
       (filter (\<lambda>d. d_is_active d \<and> d_valid_from d \<le> today w) (discounts w))"

definition below_min :: "Discount \<Rightarrow> int \<Rightarrow> bool" where
  "below_min discount n =
     (truthy (min_subjects discount) \<and>
      (case min_subjects discount of None \<Rightarrow> False | Some m \<Rightarrow> n < m))"

definition above_max :: "Discount \<Rightarrow> int \<Rightarrow> bool" where
  "above_max discount n =
     (truthy (max_subjects discount) \<and>
      (case max_subjects discount of None \<Rightarrow> False | Some m \<Rightarrow> m < n))"

definition discount_amount :: "decimal \<Rightarrow> Discount \<Rightarrow> decimal" where
  "discount_amount price discount =
     (if is_percentage (discount_type discount) then price * d_value discount / 100
      else d_value discount)"

fun discount_loop :: "decimal \<Rightarrow> int \<Rightarrow> Discount list \<Rightarrow> decimal \<Rightarrow> decimal" where
  "discount_loop price n [] tot = tot"
| "discount_loop price n (discount # rest) tot =
     (if below_min discount n then discount_loop price n rest tot
      else if above_max discount n then discount_loop price n rest tot
      else discount_loop price n rest (tot + discount_amount price discount))"

definition calculate_discounts :: "ContractItem \<Rightarrow> db \<Rightarrow> decimal" where
  "calculate_discounts self w =
     discount_loop (base_price self) (subjects_count (ci_contract self) w)
       (applicable_discounts w) 0"

text \<open>
  \<^verbatim>\<open>
  def update_final_price(self):
      discount_amount = self.calculate_discounts()
      self.final_price = max(self.base_price - discount_amount, Decimal('0.00'))
      self.save()
  \<close>
\<close>

definition update_final_price :: "ContractItem \<Rightarrow> db \<Rightarrow> ContractItem \<times> (error + db)" where
  "update_final_price self w =
     (let amount = calculate_discounts self w;
          self' = self\<lparr>final_price := max (base_price self - amount) 0\<rparr>
      in (self', ContractItem_save self' w))"

text \<open>
  An object is \<open>stored\<close> when the table holds a row with its primary key that belongs to
  the same contract and carries the same \<^verbatim>\<open>is_active\<close> flag: the object was loaded from
  the database (as the administrative bulk action does, which iterates over a query set)
  or has been saved, and neither column was reassigned since.
\<close>

definition stored :: "ContractItem \<Rightarrow> db \<Rightarrow> bool" where
  "stored self w =
     (case find (\<lambda>r. ci_pk r = ci_pk self) (contract_items w) of
        None \<Rightarrow> False
      | Some r \<Rightarrow> ci_contract r = ci_contract self \<and> ci_is_active r = ci_is_active self)"

section \<open>The discount catalogue as the specification words it\<close>

text \<open>
  \<open>applicableDiscounts(asOf, subjectCountInContract)\<close>: the active rules with
  \<open>valid_from \<le> asOf\<close> and \<open>valid_to\<close> null or \<open>\<ge> asOf\<close>, further filtered by
  \<open>min_subjects \<le> subjectCountInContract\<close> (if set) and
  \<open>subjectCountInContract \<le> max_subjects\<close> (if set).
  \<open>computeDiscountTotal(item)\<close>: the sum over these rules of \<open>basePrice * value / 100\<close>
  for a percentage rule and of \<open>value\<close> for an absolute rule.
\<close>

definition spec_applicableDiscounts :: "date \<Rightarrow> int \<Rightarrow> Discount list \<Rightarrow> Discount list" where
  "spec_applicableDiscounts asOf n rules =
     filter (\<lambda>d. (case min_subjects d of None \<Rightarrow> True | Some m \<Rightarrow> m \<le> n) \<and>
                 (case max_subjects d of None \<Rightarrow> True | Some m \<Rightarrow> n \<le> m))
       (filter (\<lambda>d. d_is_active d \<and> d_valid_from d \<le> asOf \<and>
                    (case d_valid_to d of None \<Rightarrow> True | Some t \<Rightarrow> asOf \<le> t)) rules)"

definition spec_computeDiscountTotal :: "ContractItem \<Rightarrow> db \<Rightarrow> decimal" where
  "spec_computeDiscountTotal item w =
     sum_list (map (\<lambda>d. if is_percentage (discount_type d)
                         then base_price item * d_value d / 100 else d_value d)
       (spec_applicableDiscounts (today w) (subjects_count (ci_contract item) w) (discounts w)))"

text \<open>A bound of 0 rewritten to an unset bound.\<close>

definition unset_zero_bounds :: "Discount \<Rightarrow> Discount" where
  "unset_zero_bounds d =
     d\<lparr>min_subjects := (if min_subjects d = Some 0 then None else min_subjects d),
       max_subjects := (if max_subjects d = Some 0 then None else max_subjects d)\<rparr>"

section \<open>ContractChangeRequest.calculate_estimated_change\<close>

text \<open>
  \<^verbatim>\<open>
  def calculate_estimated_change(self):
      if self.request_type == 'add_subject' and self.subject:
          current_price = self.subject.current_price
          if current_price:
              if self.contract:
                  current_subjects = self.contract.items.filter(is_active=True).count()
              self.estimated_monthly_change = current_price
      elif self.request_type == 'remove_subject':
          if self.contract and self.child and self.subject:
              try:
                  item = self.contract.items.get(child=self.child, subject=self.subject,
                                                 is_active=True)
                  self.estimated_monthly_change = -item.final_price
              except ContractItem.DoesNotExist:
                  self.estimated_monthly_change = Decimal('0.00')
  \<close>
  A \<^verbatim>\<open>Decimal\<close> is false exactly when it is zero. The local \<^verbatim>\<open>current_subjects\<close> is never
  read. \<^verbatim>\<open>MultipleObjectsReturned\<close> is not caught and leaves the method.
\<close>

definition matching_items :: "pk \<Rightarrow> pk \<Rightarrow> pk \<Rightarrow> db \<Rightarrow> ContractItem list" where
  "matching_items contract child subject w =
     filter (\<lambda>i. ci_child i = child \<and> ci_subject i = subject \<and> ci_is_active i)
       (filter (\<lambda>i. ci_contract i = contract) (contract_items w))"

definition remove_subject_estimate ::
  "ContractChangeRequest \<Rightarrow> db \<Rightarrow> error + ContractChangeRequest" where
  "remove_subject_estimate self w =
     (case (cr_contract self, cr_child self, cr_subject self) of
        (Some contract, Some child, Some subject) \<Rightarrow>
          (case get (matching_items contract child subject w) of
             Inr item \<Rightarrow> Inr (self\<lparr>estimated_monthly_change := Some (- final_price item)\<rparr>)
           | Inl DoesNotExist \<Rightarrow> Inr (self\<lparr>estimated_monthly_change := Some 0\<rparr>)
           | Inl e \<Rightarrow> Inl e)
      | _ \<Rightarrow> Inr self)"

definition calculate_estimated_change ::
  "ContractChangeRequest \<Rightarrow> db \<Rightarrow> error + ContractChangeRequest" where
  "calculate_estimated_change self w =
     (case (request_type self = ''add_subject'', cr_subject self) of
        (True, Some subject) \<Rightarrow>
          (case current_price subject w of
             None \<Rightarrow> Inr self
           | Some price \<Rightarrow>
               if price \<noteq> 0 then Inr (self\<lparr>estimated_monthly_change := Some price\<rparr>)
               else Inr self)
      | _ \<Rightarrow>
          if request_type self = ''remove_subject'' then remove_subject_estimate self w
          else Inr self)"

text \<open>
  \<^verbatim>\<open>unique_together = ['contract', 'child', 'subject']\<close> on \<^verbatim>\<open>ContractItem\<close>: the
  database admits no two rows with the same triple.
\<close>

definition unique_together :: "db \<Rightarrow> bool" where
  "unique_together w =
     distinct (map (\<lambda>i. (ci_contract i, ci_child i, ci_subject i)) (contract_items w))"

section \<open>InvoiceItem.save, Invoice.is_overdue and Invoice.calculate_totals\<close>

text \<open>
  \<^verbatim>\<open>
  def save(self, *args, **kwargs):
      self.total_amount = (self.quantity * self.unit_price) - self.discount_amount
      super().save(*args, **kwargs)
  \<close>
\<close>

definition InvoiceItem_save ::
  "save_kwargs \<Rightarrow> InvoiceItem \<Rightarrow> db \<Rightarrow> InvoiceItem \<times> (error + db)" where
  "InvoiceItem_save kwargs self w =
     (let self' = self\<lparr>ii_total_amount :=
                    quantity self * unit_price self - ii_discount_amount self\<rparr>
      in (self', Model_save kwargs self' w))"

text \<open>
  \<^verbatim>\<open>
  @property
  def is_overdue(self):
      return self.status != 'paid' and self.due_date < date.today()
  \<close>
  The property assigns nothing and calls no \<^verbatim>\<open>save()\<close>: it maps the invoice and the
  current date to a truth value and returns no database.
\<close>

definition is_overdue :: "Invoice \<Rightarrow> db \<Rightarrow> bool" where
  "is_overdue self w = (status self \<noteq> ''paid'' \<and> due_date self < today w)"

text \<open>
  \<^verbatim>\<open>
  def calculate_totals(self):
      self.subtotal = sum(item.total_amount for item in self.items.all())
      self.total_discount = sum(item.discount_amount for item in self.items.all())
      self.total_amount = self.subtotal - self.total_discount
      self.save(update_fields=['subtotal', 'total_discount', 'total_amount'])
  \<close>
\<close>

definition items_all :: "Invoice \<Rightarrow> db \<Rightarrow> InvoiceItem list" where
  "items_all self w = filter (\<lambda>i. ii_invoice i = inv_pk self) (invoice_items w)"

definition calculate_totals :: "Invoice \<Rightarrow> db \<Rightarrow> Invoice \<times> (error + db)" where
  "calculate_totals self w =
     (let self1 = self\<lparr>subtotal := sum_list (map ii_total_amount (items_all self w))\<rparr>;
          self2 = self1\<lparr>total_discount := sum_list (map ii_discount_amount (items_all self w))\<rparr>;
          self3 = self2\<lparr>inv_total_amount := subtotal self2 - total_discount self2\<rparr>
      in (self3, save_update_fields self3 w))"

section \<open>Example data\<close>

text \<open>
  The scenarios of the specification. Dates: 2024-01-01 = 738886, 2024-03-01 = 738946,
  2024-06-01 = 739038, 2024-07-01 = 739068.
\<close>

definition empty_db :: "date \<Rightarrow> db" where
  "empty_db t = \<lparr>price_lists = [], discounts = [], contract_items = [],
     contract_item_discounts = [], invoices = [], invoice_items = [], today = t,
     engine = PostgreSQL\<rparr>"

definition mathematik :: pk where
  "mathematik = 1"



definition percent_rule :: Discount where
  "percent_rule = \<lparr>d_pk = 1, discount_type = \<lparr>is_percentage = True, dt_is_active = True\<rparr>,
     d_value = 10, d_valid_from = 738886, d_valid_to = None, d_is_active = True,
     min_subjects = None, max_subjects = None, applies_to_family = False\<rparr>"

definition absolute_rule :: Discount where
  "absolute_rule = \<lparr>d_pk = 2, discount_type = \<lparr>is_percentage = False, dt_is_active = True\<rparr>,
     d_value = 15, d_valid_from = 738886, d_valid_to = None, d_is_active = True,
     min_subjects = None, max_subjects = None, applies_to_family = False\<rparr>"

definition item_of_price :: "decimal \<Rightarrow> ContractItem" where
  "item_of_price p = \<lparr>ci_pk = 1, ci_contract = 1, ci_child = 1, ci_subject = mathematik,
     base_price = p, final_price = p, ci_is_active = True\<rparr>"

definition scenario_B :: db where
  "scenario_B = (empty_db 738946)\<lparr>discounts := [percent_rule],
     contract_items := [item_of_price 20]\<rparr>"

definition scenario_C :: db where
  "scenario_C = (empty_db 738946)\<lparr>discounts := [absolute_rule],
     contract_items := [item_of_price 10]\<rparr>"

definition negative_price_db :: db where
  "negative_price_db = (empty_db 738946)\<lparr>contract_items := [item_of_price (- 10)]\<rparr>"

definition zero_max_db :: db where
  "zero_max_db = (empty_db 738946)\<lparr>discounts := [percent_rule\<lparr>max_subjects := Some 0\<rparr>],
     contract_items := [item_of_price 20]\<rparr>"

text \<open>
  A contract with one stored line for another child, a 10 percent rule for two subjects
  or more, and (in the theorems) a new line \<open>item_of_price 20\<close> that is not stored yet.
\<close>

definition sibling_item :: ContractItem where
  "sibling_item = \<lparr>ci_pk = 2, ci_contract = 1, ci_child = 2, ci_subject = mathematik,
     base_price = 20, final_price = 20, ci_is_active = True\<rparr>"

definition new_line_db :: db where
  "new_line_db = (empty_db 738946)\<lparr>discounts := [percent_rule\<lparr>min_subjects := Some 2\<rparr>],
     contract_items := [sibling_item]\<rparr>"

definition scenario_D :: db where
  "scenario_D = (empty_db 738946)\<lparr>contract_items := [item_of_price 30]\<rparr>"

definition removal_request :: "pk \<Rightarrow> ContractChangeRequest" where
  "removal_request child = \<lparr>cr_contract = Some 1, cr_child = Some child,
     cr_subject = Some mathematik, request_type = ''remove_subject'',
     estimated_monthly_change = None\<rparr>"

definition draft_invoice :: Invoice where
  "draft_invoice = \<lparr>inv_pk = 1, subtotal = 0, total_discount = 0, inv_total_amount = 0,
     status = ''draft'', due_date = 739068\<rparr>"

definition discounted_line :: InvoiceItem where
  "discounted_line = \<lparr>ii_pk = 1, ii_invoice = 1, quantity = 1, unit_price = 10,
     ii_discount_amount = 2, ii_total_amount = 0\<rparr>"

definition one_line_db :: db where
  "one_line_db =
     db_after ((empty_db 738946)\<lparr>invoices := [draft_invoice]\<rparr>)
       (snd (InvoiceItem_save plain_save discounted_line
          ((empty_db 738946)\<lparr>invoices := [draft_invoice]\<rparr>)))"

text \<open>
  A line of base price 10.01 under a rule of 33.33 percent: the discount is 3.336333 and
  the final price 6.673667, which no two-place column holds.
\<close>

definition rounding_db :: db where
  "rounding_db = (empty_db 738946)\<lparr>discounts := [percent_rule\<lparr>d_value := 3333 / 100\<rparr>],
     contract_items := [item_of_price (1001 / 100)]\<rparr>"

text \<open>Scenario B with a rule that ends on 2024-03-01, the date of the database.\<close>

definition expiring_db :: db where
  "expiring_db = (empty_db 738946)\<lparr>discounts := [percent_rule\<lparr>d_valid_to := Some 738946\<rparr>],
     contract_items := [item_of_price 20]\<rparr>"

text \<open>
  An invoice line stored with quantity 1 (total 8) whose object now has quantity 3, and
  a line of 1.50 units at 3.33 (total 4.995).
\<close>

definition half_cent_line :: InvoiceItem where
  "half_cent_line = \<lparr>ii_pk = 2, ii_invoice = 1, quantity = 3 / 2, unit_price = 333 / 100,
     ii_discount_amount = 0, ii_total_amount = 0\<rparr>"

section \<open>Auxiliary lemmas\<close>

lemma discount_loop_sum:
  "discount_loop price n ds tot =
     tot + sum_list (map (discount_amount price)
             (filter (\<lambda>d. \<not> below_min d n \<and> \<not> above_max d n) ds))"
  by (induction ds arbitrary: tot) simp_all



lemma find_save_row: "find (\<lambda>r. key r = key obj) (save_row key obj rows) = Some obj"
  by (induction rows) simp_all

lemma length_filter_save_row:
  assumes "find (\<lambda>r. key r = key obj) rows = Some r" and "P r = P obj"
  shows "length (filter P (save_row key obj rows)) = length (filter P rows)"
  using assms by (induction rows) (auto split: if_splits)

lemma filter_distinct_key:
  assumes "distinct (map k rows)"
  shows "filter (\<lambda>r. k r = v \<and> P r) rows =
           (case find (\<lambda>r. k r = v \<and> P r) rows of None \<Rightarrow> [] | Some r \<Rightarrow> [r])"
  using assms
proof (induction rows)
  case Nil
  then show ?case by simp
next
  case (Cons a rows)
  have none: "k a = v \<Longrightarrow> filter (\<lambda>r. k r = v \<and> P r) rows = []"
    using Cons.prems by (force simp: filter_empty_conv image_iff)
  show ?case
  proof (cases "k a = v \<and> P a")
    case True
    then show ?thesis using none by simp
  next
    case False
    then show ?thesis using Cons by auto
  qed
qed

lemma matching_items_key:
  "matching_items c ch s w =
     filter (\<lambda>i. (ci_contract i, ci_child i, ci_subject i) = (c, ch, s) \<and> ci_is_active i)
       (contract_items w)"
  by (simp add: matching_items_def conj_ac cong: conj_cong)

lemma applicable_discounts_map:
  assumes "\<And>d. d_is_active (f d) = d_is_active d"
    and "\<And>d. d_valid_from (f d) = d_valid_from d"
    and "\<And>d. d_valid_to (f d) = d_valid_to d"
  shows "applicable_discounts (w\<lparr>discounts := map f (discounts w)\<rparr>) =
           map f (applicable_discounts w)"
  by (simp add: applicable_discounts_def filter_map o_def assms cong: option.case_cong)

lemma discount_loop_unset_zero_bounds:
  "discount_loop price n (map unset_zero_bounds ds) tot = discount_loop price n ds tot"
proof (induction ds arbitrary: tot)
  case Nil
  then show ?case by simp
next
  case (Cons d ds)
  have "below_min (unset_zero_bounds d) n = below_min d n"
    by (simp add: below_min_def unset_zero_bounds_def truthy_def split: option.splits)
  moreover have "above_max (unset_zero_bounds d) n = above_max d n"
    by (simp add: above_max_def unset_zero_bounds_def truthy_def split: option.splits)
  moreover have "discount_amount price (unset_zero_bounds d) = discount_amount price d"
    by (simp add: discount_amount_def unset_zero_bounds_def)
  ultimately show ?case using Cons.IH by simp
qed

lemma sum_list_discounts_nonneg:
  assumes "0 \<le> price" and "\<forall>d\<in>set ds. 0 \<le> d_value d"
  shows "0 \<le> sum_list (map (discount_amount price) ds)"
proof (rule sum_list_nonneg)
  fix x assume "x \<in> set (map (discount_amount price) ds)"
  then obtain d where "d \<in> set ds" and "x = discount_amount price d" by auto
  then show "0 \<le> x" using assms by (simp add: discount_amount_def)
qed

lemma calculate_discounts_nonneg:
  assumes "\<forall>d\<in>set (discounts w). d_is_active d \<longrightarrow> 0 \<le> d_value d"
    and "0 \<le> base_price self"
  shows "0 \<le> calculate_discounts self w"
proof -
  let ?ds = "filter (\<lambda>d. \<not> below_min d (subjects_count (ci_contract self) w) \<and>
                          \<not> above_max d (subjects_count (ci_contract self) w))
               (applicable_discounts w)"
  have "\<forall>d\<in>set ?ds. 0 \<le> d_value d"
    using assms(1) by (auto simp: applicable_discounts_def)
  then have "0 \<le> sum_list (map (discount_amount (base_price self)) ?ds)"
    using assms(2) by (rule sum_list_discounts_nonneg [rotated])
  then show ?thesis
    by (simp add: calculate_discounts_def discount_loop_sum)
qed

lemma final_price_update_final_price:
  "final_price (fst (update_final_price self w)) =
     max (base_price self - calculate_discounts self w) 0"
  by (simp add: update_final_price_def Let_def)

lemma calculate_discounts_cong:
  assumes "base_price a = base_price b" and "ci_contract a = ci_contract b"
    and "discounts w = discounts v" and "today w = today v"
    and "subjects_count (ci_contract b) w = subjects_count (ci_contract b) v"
  shows "calculate_discounts a w = calculate_discounts b v"
  using assms by (simp add: calculate_discounts_def applicable_discounts_def cong: option.case_cong)

subsection \<open>Writes\<close>

lemma and_then_simps [simp]:
  "and_then (Inl err) f = Inl err"
  "and_then (Inr x) f = f x"
  by (simp_all add: and_then_def)

lemma and_then_Inr:
  "and_then m f = Inr y \<longleftrightarrow> (\<exists>x. m = Inr x \<and> f x = Inr y)"
  by (cases m) simp_all

lemma and_then_Inl:
  "and_then m f = Inl err \<longleftrightarrow> m = Inl err \<or> (\<exists>x. m = Inr x \<and> f x = Inl err)"
  by (cases m) simp_all

lemma floor_rat_numeral:
  "\<lfloor>numeral a / numeral b :: rat\<rfloor> = numeral a div numeral b"
  "\<lfloor>- (numeral a / numeral b) :: rat\<rfloor> = - numeral a div numeral b"
  "\<lfloor>1 / numeral b :: rat\<rfloor> = 1 div numeral b"
  "\<lfloor>- (1 / numeral b) :: rat\<rfloor> = - 1 div numeral b"
  using floor_divide_of_int_eq [of "numeral a" "numeral b", where ?'a = rat]
    floor_divide_of_int_eq [of "- numeral a" "numeral b", where ?'a = rat]
    floor_divide_of_int_eq [of 1 "numeral b", where ?'a = rat]
    floor_divide_of_int_eq [of "- 1" "numeral b", where ?'a = rat]
  by simp_all

lemmas quantize_eval =
  quantize_def round_half_even_def round_half_away_def adapt_decimalfield_value_def
  prep_column_def overflow_def Let_def floor_rat_numeral

lemma adapt_decimalfield_value_Inr:
  "adapt_decimalfield_value e m x = Inr q \<Longrightarrow> q = quantize e x"
  by (simp add: adapt_decimalfield_value_def split: if_splits)

lemma adapt_decimalfield_value_Inl:
  "adapt_decimalfield_value e m x = Inl err \<Longrightarrow> err = overflow e"
  by (simp add: adapt_decimalfield_value_def split: if_splits)

lemma ContractItem_row_Inr:
  assumes "ContractItem_row e self = Inr row"
  shows "row = self\<lparr>base_price := quantize e (base_price self),
                     final_price := quantize e (final_price self)\<rparr>"
  using assms
  by (auto simp: ContractItem_row_def and_then_Inr dest!: adapt_decimalfield_value_Inr)

lemma ContractItem_row_Inl:
  assumes "ContractItem_row e self = Inl err"
  shows "err = overflow e"
  using assms
  by (auto simp: ContractItem_row_def and_then_Inl dest: adapt_decimalfield_value_Inl)

lemma ContractItem_save_Inr:
  assumes "ContractItem_save self w = Inr w'"
  shows "w' = w\<lparr>contract_items :=
           save_row ci_pk (self\<lparr>base_price := quantize (engine w) (base_price self),
                                 final_price := quantize (engine w) (final_price self)\<rparr>)
             (contract_items w)\<rparr>"
  using assms
  by (auto simp: ContractItem_save_def and_then_Inr split: if_splits dest!: ContractItem_row_Inr)

lemma ContractItem_save_Inl:
  assumes "ContractItem_save self w = Inl err"
  shows "err = IntegrityError \<or> err = overflow (engine w)"
  using assms
  by (auto simp: ContractItem_save_def and_then_Inl split: if_splits dest: ContractItem_row_Inl)

lemma Model_save_frame:
  assumes "Model_save kwargs self w = Inr w'"
  shows "w' = w\<lparr>invoice_items := invoice_items w'\<rparr>"
  using assms
  by (auto simp: Model_save_def InvoiceItem_write_def Let_def and_then_Inr split: if_splits)

lemma save_update_fields_frame:
  assumes "save_update_fields self w = Inr w'"
  shows "w' = w\<lparr>invoices := invoices w'\<rparr>"
  using assms
  by (auto simp: save_update_fields_def and_then_Inr split: if_splits)

text \<open>
  A successful \<^verbatim>\<open>update_final_price()\<close> changes the table of contract lines only, and on
  a stored line it leaves the number of active lines of the contract as it was.
\<close>

lemma update_final_price_frame:
  "discounts (db_after w (snd (update_final_price self w))) = discounts w"
  "today (db_after w (snd (update_final_price self w))) = today w"
  "engine (db_after w (snd (update_final_price self w))) = engine w"
  "contract_item_discounts (db_after w (snd (update_final_price self w))) =
     contract_item_discounts w"
  by (auto simp: db_after_def update_final_price_def Let_def split: sum.splits
      dest!: ContractItem_save_Inr)

lemma subjects_count_update_final_price:
  assumes "stored self w"
  shows "subjects_count (ci_contract self) (db_after w (snd (update_final_price self w))) =
           subjects_count (ci_contract self) w"
proof (cases "snd (update_final_price self w)")
  case (Inl err)
  then show ?thesis by (simp add: db_after_def)
next
  case (Inr w')
  let ?self' = "self\<lparr>final_price := max (base_price self - calculate_discounts self w) 0\<rparr>"
  let ?row = "?self'\<lparr>base_price := quantize (engine w) (base_price ?self'),
                      final_price := quantize (engine w) (final_price ?self')\<rparr>"
  let ?P = "\<lambda>i. ci_contract i = ci_contract self \<and> ci_is_active i"
  from Inr have "ContractItem_save ?self' w = Inr w'"
    by (simp add: update_final_price_def Let_def)
  then have w': "w' = w\<lparr>contract_items := save_row ci_pk ?row (contract_items w)\<rparr>"
    by (rule ContractItem_save_Inr)
  from assms obtain r where r: "find (\<lambda>r. ci_pk r = ci_pk self) (contract_items w) = Some r"
    and sync: "ci_contract r = ci_contract self" "ci_is_active r = ci_is_active self"
    by (auto simp: stored_def split: option.splits)
  have "length (filter ?P (save_row ci_pk ?row (contract_items w))) =
          length (filter ?P (contract_items w))"
    using r sync by (intro length_filter_save_row [where r = r]) simp_all
  then show ?thesis
    using Inr by (simp add: db_after_def subjects_count_def w')
qed

lemma one_line_db_rows:
  "one_line_db = (empty_db 738946)\<lparr>invoices := [draft_invoice],
     invoice_items := [discounted_line\<lparr>ii_total_amount := 8\<rparr>]\<rparr>"
  by (simp add: one_line_db_def InvoiceItem_save_def Model_save_def InvoiceItem_row_def
      InvoiceItem_write_def plain_save_def writes_def db_after_def discounted_line_def
      empty_db_def quantize_eval)

subsection \<open>Tables\<close>

lemma applicable_discounts_append:
  "applicable_discounts (w\<lparr>discounts := xs @ ys\<rparr>) =
     applicable_discounts (w\<lparr>discounts := xs\<rparr>) @ applicable_discounts (w\<lparr>discounts := ys\<rparr>)"
  by (simp add: applicable_discounts_def cong: option.case_cong)

lemma calculate_discounts_table:
  "calculate_discounts self (w\<lparr>discounts := ds\<rparr>) =
     sum_list (map (discount_amount (base_price self))
       (filter (\<lambda>d. \<not> below_min d (subjects_count (ci_contract self) w) \<and>
                    \<not> above_max d (subjects_count (ci_contract self) w))
          (applicable_discounts (w\<lparr>discounts := ds\<rparr>))))"
  by (simp add: calculate_discounts_def discount_loop_sum subjects_count_def)

lemma calculate_discounts_normal:
  "calculate_discounts self (w\<lparr>discounts := map unset_zero_bounds ds\<rparr>) =
     calculate_discounts self (w\<lparr>discounts := ds\<rparr>)"
proof -
  have "applicable_discounts (w\<lparr>discounts := map unset_zero_bounds ds\<rparr>) =
          map unset_zero_bounds (applicable_discounts (w\<lparr>discounts := ds\<rparr>))"
    using applicable_discounts_map [where f = unset_zero_bounds and w = "w\<lparr>discounts := ds\<rparr>"]
    by (simp add: unset_zero_bounds_def)
  then show ?thesis
    by (simp add: calculate_discounts_def subjects_count_def discount_loop_unset_zero_bounds)
qed

lemma find_map_update:
  assumes "\<And>r. key (f r) = key r"
  shows "find (\<lambda>r. key r = k) (map (\<lambda>r. if key r = k then f r else r) rows) =
           map_option f (find (\<lambda>r. key r = k) rows)"
  using assms by (induction rows) simp_all

lemma find_append_new:
  assumes "k \<notin> set (map key rows)" and "key row = k"
  shows "find (\<lambda>r. key r = k) (rows @ [row]) = Some row"
  using assms by (induction rows) auto

lemma find_present:
  assumes "k \<in> set (map key rows)"
  shows "\<exists>r. find (\<lambda>r. key r = k) rows = Some r \<and> key r = k"
  using assms by (induction rows) auto

lemma InvoiceItem_row_plain:
  assumes "InvoiceItem_row e plain_save self = Inr row"
  shows "row = self\<lparr>quantity := quantize e (quantity self),
                     unit_price := quantize e (unit_price self),
                     ii_discount_amount := quantize e (ii_discount_amount self),
                     ii_total_amount := quantize e (ii_total_amount self)\<rparr>"
  using assms
  by (auto simp: InvoiceItem_row_def prep_column_def writes_def plain_save_def and_then_Inr
      dest!: adapt_decimalfield_value_Inr)

lemma InvoiceItem_update_plain:
  "ii_pk old = ii_pk new \<Longrightarrow> InvoiceItem_update plain_save new old = new"
  by (simp add: InvoiceItem_update_def writes_def plain_save_def)

subsection \<open>The scenarios evaluated\<close>

lemma scenario_B_first_call:
  "update_final_price (item_of_price 20) scenario_B =
     ((item_of_price 20)\<lparr>final_price := 18\<rparr>,
      Inr (scenario_B\<lparr>contract_items := [(item_of_price 20)\<lparr>final_price := 18\<rparr>]\<rparr>))"
  by (simp add: update_final_price_def calculate_discounts_def applicable_discounts_def
      subjects_count_def scenario_B_def empty_db_def percent_rule_def item_of_price_def
      below_min_def above_max_def truthy_def discount_amount_def
      ContractItem_save_def ContractItem_row_def violates_unique_together_def quantize_eval)

lemma scenario_C_call:
  "update_final_price (item_of_price 10) scenario_C =
     ((item_of_price 10)\<lparr>final_price := 0\<rparr>,
      Inr (scenario_C\<lparr>contract_items := [(item_of_price 10)\<lparr>final_price := 0\<rparr>]\<rparr>))"
  by (simp add: update_final_price_def calculate_discounts_def applicable_discounts_def
      subjects_count_def scenario_C_def empty_db_def absolute_rule_def item_of_price_def
      below_min_def above_max_def truthy_def discount_amount_def
      ContractItem_save_def ContractItem_row_def violates_unique_together_def quantize_eval)

section \<open>Claims\<close>

subsection \<open>Invoice totals\<close>

text \<open>
  C1. After \<^verbatim>\<open>calculate_totals()\<close> the invoice has
  \<open>total_amount = subtotal - total_discount\<close>, \<open>subtotal\<close> is the sum of
  \<open>quantity * unit_price\<close> over its lines, and \<open>total_discount\<close> is the sum of their
  \<open>discount_amount\<close>.

  The method sums the stored \<open>total_amount\<close> of the lines, which \<^verbatim>\<open>InvoiceItem.save()\<close> has
  already reduced by the line's discount. On an invoice with the single saved line
  \<open>quantity = 1\<close>, \<open>unit_price = 10\<close>, \<open>discount_amount = 2\<close> the method stores
  \<open>subtotal = 8\<close>, \<open>total_discount = 2\<close> and \<open>total_amount = 6\<close>, while
  \<open>quantity * unit_price\<close> of the line is 10: the discount is taken off twice.
\<close>


theorem calculate_totals_subtracts_discount_twice:
  "calculate_totals draft_invoice one_line_db =
     (draft_invoice\<lparr>subtotal := 8, total_discount := 2, inv_total_amount := 6\<rparr>,
      Inr (one_line_db\<lparr>invoices :=
            [draft_invoice\<lparr>subtotal := 8, total_discount := 2, inv_total_amount := 6\<rparr>]\<rparr>))
   \<and> map (\<lambda>i. quantity i * unit_price i) (items_all draft_invoice one_line_db) = [10]"
  by (simp add: one_line_db_rows calculate_totals_def items_all_def save_update_fields_def
      draft_invoice_def discounted_line_def empty_db_def quantize_eval)

text \<open>
  In general the method assigns the sum of the lines' stored totals to \<open>subtotal\<close>; when
  every line holds the total its \<^verbatim>\<open>save()\<close> computes, the invoice total is the gross sum
  less twice the discounts.
\<close>


lemma calculate_totals_fields:
  "subtotal (fst (calculate_totals self w)) =
     sum_list (map ii_total_amount (items_all self w))"
  "total_discount (fst (calculate_totals self w)) =
     sum_list (map ii_discount_amount (items_all self w))"
  "inv_total_amount (fst (calculate_totals self w)) =
     subtotal (fst (calculate_totals self w)) - total_discount (fst (calculate_totals self w))"
  by (simp_all add: calculate_totals_def Let_def)

lemma sum_list_saved_lines:
  assumes "\<forall>i\<in>set rows. ii_total_amount i = quantity i * unit_price i - ii_discount_amount i"
  shows "sum_list (map ii_total_amount rows) =
           sum_list (map (\<lambda>i. quantity i * unit_price i) rows)
             - sum_list (map ii_discount_amount rows)"
  using assms by (induction rows) simp_all

lemma calculate_totals_saved_lines:
  assumes "\<forall>i\<in>set (items_all self w).
           ii_total_amount i = quantity i * unit_price i - ii_discount_amount i"
  shows "inv_total_amount (fst (calculate_totals self w)) =
           sum_list (map (\<lambda>i. quantity i * unit_price i) (items_all self w))
             - 2 * sum_list (map ii_discount_amount (items_all self w))"
  using sum_list_saved_lines [OF assms] by (simp add: calculate_totals_fields)

subsection \<open>Final price of a contract line\<close>

text \<open>
  C2 (amended). After \<^verbatim>\<open>update_final_price()\<close> the item carries
  \<open>final_price = max (base_price - calculate_discounts, 0)\<close>, for every item and
  database. When \<^verbatim>\<open>save()\<close> succeeds, the row stored under the item's primary key
  holds this value rounded to the two decimal places of the column; otherwise \<^verbatim>\<open>save()\<close>
  raised \<^verbatim>\<open>IntegrityError\<close> or the overflow error of the backend. When every active
  discount has a non-negative value and \<open>base_price\<close> is non-negative,
  \<open>0 \<le> final_price \<le> base_price\<close>.
\<close>


theorem update_final_price_clamped:
  "final_price (fst (update_final_price self w)) =
     max (base_price self - calculate_discounts self w) 0
   \<and> (case snd (update_final_price self w) of
         Inl err \<Rightarrow> err = IntegrityError \<or> err = overflow (engine w)
       | Inr w' \<Rightarrow>
           find (\<lambda>r. ci_pk r = ci_pk self) (contract_items w') =
             Some (self\<lparr>base_price := quantize (engine w) (base_price self),
                        final_price := quantize (engine w)
                          (max (base_price self - calculate_discounts self w) 0)\<rparr>))
   \<and> ((\<forall>d\<in>set (discounts w). d_is_active d \<longrightarrow> 0 \<le> d_value d) \<and> 0 \<le> base_price self \<longrightarrow>
        0 \<le> final_price (fst (update_final_price self w)) \<and>
        final_price (fst (update_final_price self w)) \<le> base_price self)"
proof -
  let ?self' = "self\<lparr>final_price := max (base_price self - calculate_discounts self w) 0\<rparr>"
  let ?row = "self\<lparr>base_price := quantize (engine w) (base_price self),
                    final_price := quantize (engine w)
                      (max (base_price self - calculate_discounts self w) 0)\<rparr>"
  have call: "update_final_price self w = (?self', ContractItem_save ?self' w)"
    by (simp add: update_final_price_def Let_def)
  have row: "case ContractItem_save ?self' w of
      Inl err \<Rightarrow> err = IntegrityError \<or> err = overflow (engine w)
    | Inr w' \<Rightarrow> find (\<lambda>r. ci_pk r = ci_pk self) (contract_items w') = Some ?row"
  proof (cases "ContractItem_save ?self' w")
    case (Inl err)
    then show ?thesis using ContractItem_save_Inl [OF Inl] by simp
  next
    case (Inr w')
    have "find (\<lambda>r. ci_pk r = ci_pk ?row) (save_row ci_pk ?row (contract_items w)) = Some ?row"
      by (rule find_save_row)
    then show ?thesis
      using Inr ContractItem_save_Inr [OF Inr] by simp
  qed
  have bounds: "0 \<le> calculate_discounts self w"
    if "\<forall>d\<in>set (discounts w). d_is_active d \<longrightarrow> 0 \<le> d_value d" and "0 \<le> base_price self"
    using that by (rule calculate_discounts_nonneg)
  show ?thesis
    using row bounds by (auto simp: call)
qed

text \<open>Scenario C: base price 10 and one absolute discount of 15 give the final price 0.\<close>


theorem update_final_price_clamped_witness:
  "discounts scenario_C = [absolute_rule]
   \<and> 0 \<le> d_value absolute_rule
   \<and> 0 \<le> base_price (item_of_price 10)
   \<and> final_price (fst (update_final_price (item_of_price 10) scenario_C)) = 0
   \<and> snd (update_final_price (item_of_price 10) scenario_C) =
       Inr (scenario_C\<lparr>contract_items := [(item_of_price 10)\<lparr>final_price := 0\<rparr>]\<rparr>)"
proof -
  have h: "(\<forall>d\<in>set (discounts scenario_C). d_is_active d \<longrightarrow> 0 \<le> d_value d)
      \<and> 0 \<le> base_price (item_of_price 10)"
    by (simp add: scenario_C_def empty_db_def absolute_rule_def item_of_price_def)
  have "discounts scenario_C = [absolute_rule]" "0 \<le> d_value absolute_rule"
    by (simp_all add: scenario_C_def empty_db_def absolute_rule_def)
  moreover have "final_price (fst (update_final_price (item_of_price 10) scenario_C))
      \<le> base_price (item_of_price 10)"
    using h update_final_price_clamped [of "item_of_price 10" scenario_C] by blast
  ultimately show ?thesis
    using h by (simp add: scenario_C_call)
qed

text \<open>
  Without the bound on \<open>base_price\<close> the upper bound fails: a line of base price -10 and
  an empty discount table gets the final price 0, above its base price. And the value
  is not stored as computed: a line of base price 10.01 under a rule of 33.33 percent
  gets 6.673667 on the object and 6.67 in its row.
\<close>


theorem update_final_price_clamped_counterexample:
  "discounts negative_price_db = []
   \<and> base_price (item_of_price (- 10)) = - 10
   \<and> final_price (fst (update_final_price (item_of_price (- 10)) negative_price_db)) = 0
   \<and> \<not> final_price (fst (update_final_price (item_of_price (- 10)) negative_price_db))
         \<le> base_price (item_of_price (- 10))
   \<and> final_price (fst (update_final_price (item_of_price (1001 / 100)) rounding_db)) =
       6673667 / 1000000
   \<and> snd (update_final_price (item_of_price (1001 / 100)) rounding_db) =
       Inr (rounding_db\<lparr>contract_items :=
              [(item_of_price (1001 / 100))\<lparr>final_price := 667 / 100\<rparr>]\<rparr>)"
proof -
  have negative: "update_final_price (item_of_price (- 10)) negative_price_db =
      ((item_of_price (- 10))\<lparr>final_price := 0\<rparr>,
       Inr (negative_price_db\<lparr>contract_items := [(item_of_price (- 10))\<lparr>final_price := 0\<rparr>]\<rparr>))"
    by (simp add: update_final_price_def calculate_discounts_def applicable_discounts_def
        subjects_count_def negative_price_db_def empty_db_def item_of_price_def
        ContractItem_save_def ContractItem_row_def violates_unique_together_def quantize_eval)
  have amount: "calculate_discounts (item_of_price (1001 / 100)) rounding_db = 3336333 / 1000000"
    by (simp add: calculate_discounts_def applicable_discounts_def subjects_count_def
        rounding_db_def empty_db_def percent_rule_def item_of_price_def
        below_min_def above_max_def truthy_def discount_amount_def)
  have rounding: "update_final_price (item_of_price (1001 / 100)) rounding_db =
      ((item_of_price (1001 / 100))\<lparr>final_price := 6673667 / 1000000\<rparr>,
       Inr (rounding_db\<lparr>contract_items :=
              [(item_of_price (1001 / 100))\<lparr>final_price := 667 / 100\<rparr>]\<rparr>))"
    by (simp add: update_final_price_def amount)
      (simp add: rounding_db_def empty_db_def item_of_price_def
        ContractItem_save_def ContractItem_row_def violates_unique_together_def quantize_eval)
  show ?thesis
    by (simp add: negative rounding) (simp add: negative_price_db_def empty_db_def item_of_price_def)
qed

subsection \<open>The discount total\<close>

text \<open>
  C3 (amended). \<^verbatim>\<open>calculate_discounts()\<close> returns the unclamped sum, over all discounts
  that are active, have \<open>valid_from \<le> today\<close>, have \<open>valid_to\<close> null or \<open>\<ge> today\<close>, and
  whose \<open>min_subjects\<close> and \<open>max_subjects\<close> bounds, when set and different from 0, admit
  the number of active lines of the contract, of \<open>base_price * value / 100\<close> for a
  percentage rule and of \<open>value\<close> for an absolute rule. Every such rule is added.
\<close>


theorem calculate_discounts_stacks:
  "calculate_discounts self w =
     (let n = subjects_count (ci_contract self) w in
      sum_list (map (\<lambda>d. if is_percentage (discount_type d)
                          then base_price self * d_value d / 100 else d_value d)
        (filter (\<lambda>d. (case min_subjects d of None \<Rightarrow> True | Some m \<Rightarrow> m = 0 \<or> m \<le> n) \<and>
                    (case max_subjects d of None \<Rightarrow> True | Some m \<Rightarrow> m = 0 \<or> n \<le> m))
          (filter (\<lambda>d. d_is_active d \<and> d_valid_from d \<le> today w \<and>
                       (case d_valid_to d of None \<Rightarrow> True | Some t \<Rightarrow> today w \<le> t))
            (discounts w)))))"
proof -
  let ?n = "subjects_count (ci_contract self) w"
  have bounds: "(\<not> below_min d ?n \<and> \<not> above_max d ?n) =
      ((case min_subjects d of None \<Rightarrow> True | Some m \<Rightarrow> m = 0 \<or> m \<le> ?n) \<and>
       (case max_subjects d of None \<Rightarrow> True | Some m \<Rightarrow> m = 0 \<or> ?n \<le> m))" for d
    by (auto simp: below_min_def above_max_def truthy_def split: option.splits)
  have amount: "discount_amount (base_price self) =
      (\<lambda>d. if is_percentage (discount_type d)
            then base_price self * d_value d / 100 else d_value d)"
    by (rule ext) (simp add: discount_amount_def)
  have window: "applicable_discounts w =
      filter (\<lambda>d. d_is_active d \<and> d_valid_from d \<le> today w \<and>
                  (case d_valid_to d of None \<Rightarrow> True | Some t \<Rightarrow> today w \<le> t)) (discounts w)"
    by (simp add: applicable_discounts_def conj_ac cong: conj_cong)
  show ?thesis
    unfolding calculate_discounts_def discount_loop_sum bounds amount window Let_def
    by simp
qed

text \<open>
  With the bounds read as the specification words them (every set bound counts), the sum
  differs: a 10 percent rule with \<open>max_subjects = 0\<close> on a contract with one active line
  of base price 20 contributes 2 in the code and nothing in the specification's formula.
\<close>


theorem calculate_discounts_zero_max_counterexample:
  "calculate_discounts (item_of_price 20) zero_max_db = 2
   \<and> spec_computeDiscountTotal (item_of_price 20) zero_max_db = 0"
  by (simp add: calculate_discounts_def applicable_discounts_def subjects_count_def
      spec_computeDiscountTotal_def spec_applicableDiscounts_def
      zero_max_db_def empty_db_def percent_rule_def item_of_price_def
      below_min_def above_max_def truthy_def discount_amount_def)

subsection \<open>Repeated recalculation\<close>

text \<open>
  C4 (amended). For a stored contract line (the table has a row with the object's primary
  key, contract and \<^verbatim>\<open>is_active\<close> flag), a second \<^verbatim>\<open>update_final_price()\<close> on the object
  the first call returned yields the same \<open>final_price\<close> as the first, when between the
  calls the date, the discount table and the number of active lines of the contract have
  not changed. The database between the calls is the one the first call left: the one
  it wrote, or the one it found when its \<^verbatim>\<open>save()\<close> raised.
\<close>


theorem update_final_price_idempotent:
  assumes "stored self w"
    and "discounts w2 = discounts (db_after w (snd (update_final_price self w)))"
    and "today w2 = today (db_after w (snd (update_final_price self w)))"
    and "subjects_count (ci_contract self) w2 =
           subjects_count (ci_contract self) (db_after w (snd (update_final_price self w)))"
  shows "final_price (fst (update_final_price (fst (update_final_price self w)) w2)) =
           final_price (fst (update_final_price self w))"
proof -
  let ?self1 = "fst (update_final_price self w)"
  have same: "base_price ?self1 = base_price self" "ci_contract ?self1 = ci_contract self"
    by (simp_all add: update_final_price_def Let_def)
  have "discounts w2 = discounts w" "today w2 = today w"
    using assms(2,3) by (simp_all add: update_final_price_frame)
  moreover have "subjects_count (ci_contract self) w2 = subjects_count (ci_contract self) w"
    using assms(1,4) by (simp add: subjects_count_update_final_price)
  ultimately have "calculate_discounts ?self1 w2 = calculate_discounts self w"
    using same by (intro calculate_discounts_cong) simp_all
  then show ?thesis
    using same by (simp add: final_price_update_final_price)
qed

text \<open>
  Scenario B, a stored line of base price 20 under a 10 percent rule: both calls give 18.
\<close>


theorem update_final_price_idempotent_witness:
  "stored (item_of_price 20) scenario_B
   \<and> final_price (fst (update_final_price (item_of_price 20) scenario_B)) = 18
   \<and> snd (update_final_price (item_of_price 20) scenario_B) =
       Inr (scenario_B\<lparr>contract_items := [(item_of_price 20)\<lparr>final_price := 18\<rparr>]\<rparr>)
   \<and> final_price (fst (update_final_price
        (fst (update_final_price (item_of_price 20) scenario_B))
        (scenario_B\<lparr>contract_items := [(item_of_price 20)\<lparr>final_price := 18\<rparr>]\<rparr>))) = 18"
proof -
  have h: "stored (item_of_price 20) scenario_B"
    by (simp add: stored_def scenario_B_def empty_db_def item_of_price_def)
  have after: "db_after scenario_B (snd (update_final_price (item_of_price 20) scenario_B)) =
      scenario_B\<lparr>contract_items := [(item_of_price 20)\<lparr>final_price := 18\<rparr>]\<rparr>"
    by (simp add: scenario_B_first_call db_after_def)
  show ?thesis
    using h update_final_price_idempotent [OF h refl refl refl]
    by (simp add: after) (simp add: scenario_B_first_call)
qed

text \<open>
  For an object that is not stored yet, the first call's \<^verbatim>\<open>save()\<close> adds its row, so the
  second call counts one more active line: with one other line in the contract and a
  10 percent rule for two subjects or more, the first call gives 20 and the second, on
  the database the first one left, gives 18. And a rule whose last day of validity is
  the day of the first call gives 18 then and 20 on the next day, with the tables
  unchanged.
\<close>


theorem update_final_price_idempotent_counterexample:
  "\<not> stored (item_of_price 20) new_line_db
   \<and> final_price (fst (update_final_price (item_of_price 20) new_line_db)) = 20
   \<and> snd (update_final_price (item_of_price 20) new_line_db) =
       Inr (new_line_db\<lparr>contract_items := [sibling_item, item_of_price 20]\<rparr>)
   \<and> final_price (fst (update_final_price
        (fst (update_final_price (item_of_price 20) new_line_db))
        (new_line_db\<lparr>contract_items := [sibling_item, item_of_price 20]\<rparr>))) = 18
   \<and> stored (item_of_price 20) expiring_db
   \<and> final_price (fst (update_final_price (item_of_price 20) expiring_db)) = 18
   \<and> snd (update_final_price (item_of_price 20) expiring_db) =
       Inr (expiring_db\<lparr>contract_items := [(item_of_price 20)\<lparr>final_price := 18\<rparr>]\<rparr>)
   \<and> final_price (fst (update_final_price
        (fst (update_final_price (item_of_price 20) expiring_db))
        (expiring_db\<lparr>contract_items := [(item_of_price 20)\<lparr>final_price := 18\<rparr>],
                     today := 738947\<rparr>))) = 20"
proof -
  have first_call: "update_final_price (item_of_price 20) new_line_db =
      (item_of_price 20,
       Inr (new_line_db\<lparr>contract_items := [sibling_item, item_of_price 20]\<rparr>))"
    by (simp add: update_final_price_def calculate_discounts_def applicable_discounts_def
        subjects_count_def new_line_db_def empty_db_def percent_rule_def item_of_price_def
        sibling_item_def below_min_def above_max_def truthy_def discount_amount_def
        ContractItem_save_def ContractItem_row_def violates_unique_together_def quantize_eval)
  have second_call: "final_price (fst (update_final_price (item_of_price 20)
      (new_line_db\<lparr>contract_items := [sibling_item, item_of_price 20]\<rparr>))) = 18"
    by (simp add: final_price_update_final_price calculate_discounts_def
        applicable_discounts_def subjects_count_def new_line_db_def empty_db_def
        percent_rule_def item_of_price_def sibling_item_def below_min_def above_max_def
        truthy_def discount_amount_def)
  have unsaved: "\<not> stored (item_of_price 20) new_line_db"
    by (simp add: stored_def new_line_db_def empty_db_def sibling_item_def item_of_price_def)
  have same_day: "update_final_price (item_of_price 20) expiring_db =
      ((item_of_price 20)\<lparr>final_price := 18\<rparr>,
       Inr (expiring_db\<lparr>contract_items := [(item_of_price 20)\<lparr>final_price := 18\<rparr>]\<rparr>))"
    by (simp add: update_final_price_def calculate_discounts_def applicable_discounts_def
        subjects_count_def expiring_db_def empty_db_def percent_rule_def item_of_price_def
        below_min_def above_max_def truthy_def discount_amount_def
        ContractItem_save_def ContractItem_row_def violates_unique_together_def quantize_eval)
  have next_day: "final_price (fst (update_final_price ((item_of_price 20)\<lparr>final_price := 18\<rparr>)
      (expiring_db\<lparr>contract_items := [(item_of_price 20)\<lparr>final_price := 18\<rparr>],
                   today := 738947\<rparr>))) = 20"
    by (simp add: final_price_update_final_price calculate_discounts_def
        applicable_discounts_def subjects_count_def expiring_db_def empty_db_def
        percent_rule_def item_of_price_def below_min_def above_max_def
        truthy_def discount_amount_def)
  have saved: "stored (item_of_price 20) expiring_db"
    by (simp add: stored_def expiring_db_def empty_db_def item_of_price_def)
  show ?thesis
    using unsaved saved second_call next_day
    by (simp add: first_call same_day) (simp add: item_of_price_def)
qed

subsection \<open>Current price of a subject\<close>





subsection \<open>Applied discount rows\<close>

text \<open>
  C6 (amended). \<^verbatim>\<open>update_final_price()\<close> creates no \<^verbatim>\<open>ContractItemDiscount\<close> row,
  whether or not a discount is applied: the table is the same before and after the call.
  Neither \<^verbatim>\<open>InvoiceItem.save()\<close> nor \<^verbatim>\<open>Invoice.calculate_totals()\<close> writes to it.
\<close>


theorem contract_item_discounts_unchanged:
  "contract_item_discounts (db_after w (snd (update_final_price self w))) =
     contract_item_discounts w
   \<and> contract_item_discounts (db_after w (snd (InvoiceItem_save kwargs line w))) =
       contract_item_discounts w
   \<and> contract_item_discounts (db_after w (snd (calculate_totals invoice w))) =
       contract_item_discounts w"
proof -
  have "contract_item_discounts (db_after w (Model_save kwargs line' w)) =
      contract_item_discounts w" for line'
  proof (cases "Model_save kwargs line' w")
    case (Inl err)
    then show ?thesis by (simp add: db_after_def)
  next
    case (Inr w')
    have "contract_item_discounts w' =
        contract_item_discounts (w\<lparr>invoice_items := invoice_items w'\<rparr>)"
      by (rule arg_cong [OF Model_save_frame [OF Inr]])
    then show ?thesis
      using Inr by (simp add: db_after_def)
  qed
  moreover have "contract_item_discounts (db_after w (save_update_fields invoice' w)) =
      contract_item_discounts w" for invoice'
  proof (cases "save_update_fields invoice' w")
    case (Inl err)
    then show ?thesis by (simp add: db_after_def)
  next
    case (Inr w')
    have "contract_item_discounts w' =
        contract_item_discounts (w\<lparr>invoices := invoices w'\<rparr>)"
      by (rule arg_cong [OF save_update_fields_frame [OF Inr]])
    then show ?thesis
      using Inr by (simp add: db_after_def)
  qed
  ultimately show ?thesis
    by (simp add: update_final_price_frame InvoiceItem_save_def calculate_totals_def Let_def)
qed

text \<open>
  Scenario B: the 10 percent rule is applied to the line of base price 20 (discount 2,
  final price 18), the write succeeds, and the table of applied discounts is still empty.
\<close>


theorem update_final_price_creates_no_row_counterexample:
  "applicable_discounts scenario_B = [percent_rule]
   \<and> calculate_discounts (item_of_price 20) scenario_B = 2
   \<and> final_price (fst (update_final_price (item_of_price 20) scenario_B)) = 18
   \<and> snd (update_final_price (item_of_price 20) scenario_B) =
       Inr (scenario_B\<lparr>contract_items := [(item_of_price 20)\<lparr>final_price := 18\<rparr>]\<rparr>)
   \<and> contract_item_discounts
       (db_after scenario_B (snd (update_final_price (item_of_price 20) scenario_B))) = []"
proof -
  have "applicable_discounts scenario_B = [percent_rule]"
    by (simp add: applicable_discounts_def scenario_B_def empty_db_def percent_rule_def)
  moreover have "calculate_discounts (item_of_price 20) scenario_B = 2"
    by (simp add: calculate_discounts_def applicable_discounts_def subjects_count_def
        scenario_B_def empty_db_def percent_rule_def item_of_price_def
        below_min_def above_max_def truthy_def discount_amount_def)
  ultimately show ?thesis
    by (simp add: scenario_B_first_call db_after_def) (simp add: scenario_B_def empty_db_def)
qed

subsection \<open>Invoice lines\<close>


text \<open>
  The row a plain \<^verbatim>\<open>save()\<close> leaves holds the total rounded to two decimal places.
\<close>

lemma InvoiceItem_save_plain_row:
  assumes "snd (InvoiceItem_save plain_save self w) = Inr w'"
  shows "find (\<lambda>r. ii_pk r = ii_pk self) (invoice_items w') =
     Some (self\<lparr>quantity := quantize (engine w) (quantity self),
                unit_price := quantize (engine w) (unit_price self),
                ii_discount_amount := quantize (engine w) (ii_discount_amount self),
                ii_total_amount := quantize (engine w)
                  (quantity self * unit_price self - ii_discount_amount self)\<rparr>)"
proof -
  let ?self' = "self\<lparr>ii_total_amount :=
                   quantity self * unit_price self - ii_discount_amount self\<rparr>"
  let ?row = "self\<lparr>quantity := quantize (engine w) (quantity self),
                unit_price := quantize (engine w) (unit_price self),
                ii_discount_amount := quantize (engine w) (ii_discount_amount self),
                ii_total_amount := quantize (engine w)
                  (quantity self * unit_price self - ii_discount_amount self)\<rparr>"
  from assms have "Model_save plain_save ?self' w = Inr w'"
    by (simp add: InvoiceItem_save_def Let_def)
  then obtain row where row: "InvoiceItem_row (engine w) plain_save ?self' = Inr row"
    and written: "InvoiceItem_write plain_save row w = Inr w'"
    by (auto simp: Model_save_def plain_save_def and_then_Inr)
  have row_eq: "row = ?row"
    using InvoiceItem_row_plain [OF row] by simp
  show ?thesis
  proof (cases "ii_pk self \<in> set (map ii_pk (invoice_items w))")
    case True
    then obtain r where r: "find (\<lambda>r. ii_pk r = ii_pk self) (invoice_items w) = Some r"
      and pk: "ii_pk r = ii_pk self"
      using find_present [of "ii_pk self" ii_pk "invoice_items w"] by blast
    have "invoice_items w' =
        map (\<lambda>r. if ii_pk r = ii_pk self then InvoiceItem_update plain_save ?row r else r)
          (invoice_items w)"
      using written True by (auto simp: InvoiceItem_write_def plain_save_def row_eq Let_def)
    moreover have "ii_pk (InvoiceItem_update plain_save ?row r') = ii_pk r'" for r'
      by (simp add: InvoiceItem_update_def)
    ultimately have "find (\<lambda>r. ii_pk r = ii_pk self) (invoice_items w') =
        Some (InvoiceItem_update plain_save ?row r)"
      using find_map_update [of ii_pk "InvoiceItem_update plain_save ?row" "ii_pk self"
          "invoice_items w"] r
      by simp
    then show ?thesis
      using pk by (simp add: InvoiceItem_update_plain)
  next
    case False
    then have "invoice_items w' = invoice_items w @ [?row]"
      using written by (auto simp: InvoiceItem_write_def plain_save_def row_eq Let_def)
    then show ?thesis
      using False find_append_new [of "ii_pk self" ii_pk "invoice_items w" ?row] by simp
  qed
qed

text \<open>
  A line of 1.50 units at 3.33: the object holds 4.995 and the row 5.00.
\<close>

lemma InvoiceItem_save_half_cent:
  "InvoiceItem_save plain_save half_cent_line one_line_db =
     (half_cent_line\<lparr>ii_total_amount := 999 / 200\<rparr>,
      Inr (one_line_db\<lparr>invoice_items :=
             [discounted_line\<lparr>ii_total_amount := 8\<rparr>, half_cent_line\<lparr>ii_total_amount := 5\<rparr>]\<rparr>))"
  by (simp add: one_line_db_rows InvoiceItem_save_def Model_save_def InvoiceItem_row_def
      InvoiceItem_write_def plain_save_def writes_def half_cent_line_def discounted_line_def
      empty_db_def quantize_eval)

text \<open>
  \<^verbatim>\<open>save(update_fields=['quantity'])\<close> on the stored line, after its quantity was set
  to 3: the object holds the total 28, the row the quantity 3 and still the total 8.
\<close>

lemma InvoiceItem_save_update_fields_quantity:
  "InvoiceItem_save \<lparr>force_insert = False, force_update = False,
       update_fields = Some [''quantity'']\<rparr>
     (discounted_line\<lparr>quantity := 3, ii_total_amount := 8\<rparr>) one_line_db =
     (discounted_line\<lparr>quantity := 3, ii_total_amount := 28\<rparr>,
      Inr (one_line_db\<lparr>invoice_items := [discounted_line\<lparr>quantity := 3, ii_total_amount := 8\<rparr>]\<rparr>))"
  by (simp add: one_line_db_rows InvoiceItem_save_def Model_save_def InvoiceItem_row_def
      InvoiceItem_write_def InvoiceItem_update_def InvoiceItem_field_names_def writes_def
      discounted_line_def empty_db_def quantize_eval)

subsection \<open>Overdue invoices\<close>

text \<open>
  C8. For every invoice, status and pair of dates, \<^verbatim>\<open>is_overdue\<close> is true if and only
  if the status is not \<open>paid\<close> and \<open>due_date < today\<close>. The property is a function of the
  invoice and the date alone and returns no database, so it writes nothing.
\<close>


theorem is_overdue_iff:
  "is_overdue self w \<longleftrightarrow> status self \<noteq> ''paid'' \<and> due_date self < today w"
  by (simp add: is_overdue_def)

subsection \<open>Estimate for removing a subject\<close>

text \<open>
  C9. For a change request of type \<open>remove_subject\<close> with contract, child and subject
  set, on a database that keeps \<^verbatim>\<open>unique_together\<close>, \<^verbatim>\<open>calculate_estimated_change()\<close>
  sets \<open>estimated_monthly_change\<close> to the negated \<open>final_price\<close> of the contract's active
  line for that child and subject, and to 0 when there is no such line.
\<close>


theorem remove_subject_estimate_value:
  assumes "request_type self = ''remove_subject''"
    and "cr_contract self = Some contract"
    and "cr_child self = Some child"
    and "cr_subject self = Some subject"
    and "unique_together w"
  shows "calculate_estimated_change self w =
     Inr (self\<lparr>estimated_monthly_change := Some
       (case find (\<lambda>i. ci_contract i = contract \<and> ci_child i = child \<and>
                        ci_subject i = subject \<and> ci_is_active i) (contract_items w) of
          None \<Rightarrow> 0
        | Some item \<Rightarrow> - final_price item)\<rparr>)"
proof -
  let ?P = "\<lambda>i. (ci_contract i, ci_child i, ci_subject i) = (contract, child, subject)
                  \<and> ci_is_active i"
  have P: "?P = (\<lambda>i. ci_contract i = contract \<and> ci_child i = child \<and>
                      ci_subject i = subject \<and> ci_is_active i)"
    by (rule ext) auto
  have "matching_items contract child subject w =
          (case find ?P (contract_items w) of None \<Rightarrow> [] | Some r \<Rightarrow> [r])"
    unfolding matching_items_key
    using assms(5) unfolding unique_together_def by (rule filter_distinct_key)
  then have rows: "matching_items contract child subject w =
      (case find (\<lambda>i. ci_contract i = contract \<and> ci_child i = child \<and>
                      ci_subject i = subject \<and> ci_is_active i) (contract_items w) of
         None \<Rightarrow> [] | Some r \<Rightarrow> [r])"
    unfolding P .
  have not_add: "request_type self \<noteq> ''add_subject''"
    using assms(1) by simp
  show ?thesis
    using assms(1-4) not_add
    by (simp add: calculate_estimated_change_def remove_subject_estimate_def rows get_def
        split: option.splits)
qed

text \<open>
  Scenario D: one active line with final price 30 gives -30 for its child and 0 for a
  child without a line.
\<close>


theorem remove_subject_estimate_value_witness:
  "unique_together scenario_D
   \<and> calculate_estimated_change (removal_request 1) scenario_D =
       Inr ((removal_request 1)\<lparr>estimated_monthly_change := Some (- 30)\<rparr>)
   \<and> calculate_estimated_change (removal_request 2) scenario_D =
       Inr ((removal_request 2)\<lparr>estimated_monthly_change := Some 0\<rparr>)"
proof -
  have u: "unique_together scenario_D"
    by (simp add: unique_together_def scenario_D_def empty_db_def)
  have r: "request_type (removal_request c) = ''remove_subject''"
    "cr_contract (removal_request c) = Some 1"
    "cr_child (removal_request c) = Some c"
    "cr_subject (removal_request c) = Some mathematik" for c
    by (simp_all add: removal_request_def)
  show ?thesis
    using u remove_subject_estimate_value [OF r(1) r(2) r(3) r(4) u, of 1]
      remove_subject_estimate_value [OF r(1) r(2) r(3) r(4) u, of 2]
    by (simp add: scenario_D_def empty_db_def item_of_price_def)
qed

subsection \<open>A bound of zero\<close>

text \<open>
  C10. In \<^verbatim>\<open>calculate_discounts()\<close> a \<open>min_subjects\<close> or \<open>max_subjects\<close> bound of 0 acts
  as an unset bound: rewriting every 0 bound of the discount table to null leaves the
  result unchanged, and so does replacing the 0 bound of one rule, anywhere in the table,
  by null. In particular a rule with \<open>max_subjects = 0\<close> that is active, within its
  validity window and not below its minimum is applied for every count of active lines:
  the result is the result without the rule plus the rule's amount.
\<close>


theorem zero_bound_is_unset:
  "calculate_discounts self (w\<lparr>discounts := map unset_zero_bounds (discounts w)\<rparr>) =
     calculate_discounts self w
   \<and> calculate_discounts self (w\<lparr>discounts := before @ d\<lparr>max_subjects := Some 0\<rparr> # rest\<rparr>) =
       calculate_discounts self (w\<lparr>discounts := before @ d\<lparr>max_subjects := None\<rparr> # rest\<rparr>)
   \<and> calculate_discounts self (w\<lparr>discounts := before @ d\<lparr>min_subjects := Some 0\<rparr> # rest\<rparr>) =
       calculate_discounts self (w\<lparr>discounts := before @ d\<lparr>min_subjects := None\<rparr> # rest\<rparr>)
   \<and> (d_is_active d \<and> d_valid_from d \<le> today w \<and>
       (case d_valid_to d of None \<Rightarrow> True | Some t \<Rightarrow> today w \<le> t) \<and>
       \<not> below_min d (subjects_count (ci_contract self) w) \<longrightarrow>
         calculate_discounts self (w\<lparr>discounts := before @ d\<lparr>max_subjects := Some 0\<rparr> # rest\<rparr>) =
           calculate_discounts self (w\<lparr>discounts := before @ rest\<rparr>)
             + discount_amount (base_price self) d)"
proof -
  have whole: "calculate_discounts self (w\<lparr>discounts := map unset_zero_bounds (discounts w)\<rparr>) =
      calculate_discounts self w"
    using calculate_discounts_normal [where self = self and w = w and ds = "discounts w"] by simp
  have "unset_zero_bounds (d\<lparr>max_subjects := Some 0\<rparr>) =
      unset_zero_bounds (d\<lparr>max_subjects := None\<rparr>)"
    by (simp add: unset_zero_bounds_def)
  then have "map unset_zero_bounds (before @ d\<lparr>max_subjects := Some 0\<rparr> # rest) =
      map unset_zero_bounds (before @ d\<lparr>max_subjects := None\<rparr> # rest)"
    by simp
  then have max0: "calculate_discounts self
        (w\<lparr>discounts := before @ d\<lparr>max_subjects := Some 0\<rparr> # rest\<rparr>) =
      calculate_discounts self (w\<lparr>discounts := before @ d\<lparr>max_subjects := None\<rparr> # rest\<rparr>)"
    using calculate_discounts_normal [where self = self and w = w and ds = "before @ d\<lparr>max_subjects := Some 0\<rparr> # rest"]
      calculate_discounts_normal [where self = self and w = w and ds = "before @ d\<lparr>max_subjects := None\<rparr> # rest"]
    by simp
  have "unset_zero_bounds (d\<lparr>min_subjects := Some 0\<rparr>) =
      unset_zero_bounds (d\<lparr>min_subjects := None\<rparr>)"
    by (simp add: unset_zero_bounds_def)
  then have "map unset_zero_bounds (before @ d\<lparr>min_subjects := Some 0\<rparr> # rest) =
      map unset_zero_bounds (before @ d\<lparr>min_subjects := None\<rparr> # rest)"
    by simp
  then have min0: "calculate_discounts self
        (w\<lparr>discounts := before @ d\<lparr>min_subjects := Some 0\<rparr> # rest\<rparr>) =
      calculate_discounts self (w\<lparr>discounts := before @ d\<lparr>min_subjects := None\<rparr> # rest\<rparr>)"
    using calculate_discounts_normal [where self = self and w = w and ds = "before @ d\<lparr>min_subjects := Some 0\<rparr> # rest"]
      calculate_discounts_normal [where self = self and w = w and ds = "before @ d\<lparr>min_subjects := None\<rparr> # rest"]
    by simp
  have applied: "calculate_discounts self
        (w\<lparr>discounts := before @ d\<lparr>max_subjects := Some 0\<rparr> # rest\<rparr>) =
      calculate_discounts self (w\<lparr>discounts := before @ rest\<rparr>)
        + discount_amount (base_price self) d"
    if "d_is_active d" "d_valid_from d \<le> today w"
      "case d_valid_to d of None \<Rightarrow> True | Some t \<Rightarrow> today w \<le> t"
      "\<not> below_min d (subjects_count (ci_contract self) w)"
  proof -
    let ?d = "d\<lparr>max_subjects := Some 0\<rparr>"
    have "applicable_discounts (w\<lparr>discounts := [?d]\<rparr>) = [?d]"
      using that(1-3) by (simp add: applicable_discounts_def cong: option.case_cong)
    moreover have "\<not> below_min ?d (subjects_count (ci_contract self) w)"
      using that(4) by (simp add: below_min_def)
    moreover have "\<not> above_max ?d (subjects_count (ci_contract self) w)"
      by (simp add: above_max_def truthy_def)
    moreover have "discount_amount (base_price self) ?d = discount_amount (base_price self) d"
      by (simp add: discount_amount_def)
    ultimately show ?thesis
      using applicable_discounts_append [where w = w and xs = before and ys = "?d # rest"]
        applicable_discounts_append [where w = w and xs = "[?d]" and ys = rest]
        applicable_discounts_append [where w = w and xs = before and ys = rest]
      by (simp add: calculate_discounts_table)
  qed
  show ?thesis
    using whole max0 min0 applied by blast
qed

text \<open>
  A 10 percent rule with \<open>max_subjects = 0\<close> on a contract with one active line of base
  price 20 contributes 2.
\<close>


theorem zero_bound_is_unset_witness:
  "d_is_active percent_rule
   \<and> d_valid_from percent_rule \<le> today zero_max_db
   \<and> d_valid_to percent_rule = None
   \<and> \<not> below_min percent_rule (subjects_count (ci_contract (item_of_price 20)) zero_max_db)
   \<and> subjects_count (ci_contract (item_of_price 20)) zero_max_db = 1
   \<and> discounts zero_max_db = [percent_rule\<lparr>max_subjects := Some 0\<rparr>]
   \<and> calculate_discounts (item_of_price 20) (zero_max_db\<lparr>discounts := []\<rparr>) = 0
   \<and> discount_amount (base_price (item_of_price 20)) percent_rule = 2
   \<and> calculate_discounts (item_of_price 20) zero_max_db = 2"
proof -
  have h: "d_is_active percent_rule \<and> d_valid_from percent_rule \<le> today zero_max_db \<and>
      (case d_valid_to percent_rule of None \<Rightarrow> True | Some t \<Rightarrow> today zero_max_db \<le> t) \<and>
      \<not> below_min percent_rule (subjects_count (ci_contract (item_of_price 20)) zero_max_db)"
    by (simp add: percent_rule_def zero_max_db_def empty_db_def below_min_def truthy_def)
  have none: "calculate_discounts (item_of_price 20) (zero_max_db\<lparr>discounts := []\<rparr>) = 0"
    by (simp add: calculate_discounts_def applicable_discounts_def)
  have amount: "discount_amount (base_price (item_of_price 20)) percent_rule = 2"
    by (simp add: discount_amount_def percent_rule_def item_of_price_def)
  have table: "zero_max_db\<lparr>discounts := [percent_rule\<lparr>max_subjects := Some 0\<rparr>]\<rparr> =
      zero_max_db"
    by (simp add: zero_max_db_def)
  have count: "subjects_count (ci_contract (item_of_price 20)) zero_max_db = 1"
    by (simp add: subjects_count_def zero_max_db_def empty_db_def item_of_price_def)
  have "calculate_discounts (item_of_price 20) zero_max_db = 0 + 2"
    using h zero_bound_is_unset [where self = "item_of_price 20" and w = zero_max_db
        and before = "[]" and d = percent_rule and rest = "[]"]
    by (simp add: table none amount)
  then show ?thesis
    using h none amount count
    by (simp add: percent_rule_def zero_max_db_def empty_db_def)
qed

end
